theory Spec2Isabelle
  imports Complex_Main "HOL-Library.Multiset"
begin

section \<open>Data model: cells, rows and frames\<close>

text \<open>
  The feature pipeline of \<^verbatim>\<open>quantmsio/core/feature.py\<close> works on pandas data frames.
  A cell of a frame is one of pandas' three missing values (Python's \<^verbatim>\<open>None\<close>, the
  float \<^verbatim>\<open>nan\<close>, the nullable-integer \<^verbatim>\<open>pd.NA\<close>), a number or a string. Numbers are
  reals: Python compares and hashes \<^verbatim>\<open>2\<close> and \<^verbatim>\<open>2.0\<close> as equal, and rounding is not
  modelled. Structured payloads (\<^verbatim>\<open>additional_scores\<close>, \<^verbatim>\<open>cv_params\<close>) are only passed
  through by the functions below and stand as cells like any other value.
\<close>

datatype cell = PyNone | NaN | NA | Num real | Str string

definition is_null :: "cell \<Rightarrow> bool" where
  "is_null c = (c = PyNone \<or> c = NaN \<or> c = NA)"

datatype error =
    KeyError string
  | IndexError
  | TypeError
  | ValueError
  | Exception string
  | SourceError string

type_synonym row = "string \<Rightarrow> cell"

text \<open>
  A frame is its list of column names and its rows in index order. A row is read only at
  the names in \<open>columns\<close>; reading a column that is not there raises \<^verbatim>\<open>KeyError\<close>.
\<close>

record frame =
  columns :: "string list"
  rows :: "row list"

definition getitem :: "frame \<Rightarrow> string \<Rightarrow> error + cell list" where
  "getitem df c =
     (if c \<in> set (columns df) then Inr (map (\<lambda>r. r c) (rows df)) else Inl (KeyError c))"

text \<open>\<^verbatim>\<open>df[[c1, c2, ...]]\<close>: the frame must have every listed column.\<close>

fun select_columns :: "frame \<Rightarrow> string list \<Rightarrow> error + unit" where
  "select_columns df [] = Inr ()"
| "select_columns df (c # cs) =
     (if c \<in> set (columns df) then select_columns df cs else Inl (KeyError c))"

text \<open>\<^verbatim>\<open>df[c] = values\<close> and \<^verbatim>\<open>df.loc[:, c] = values\<close>: an existing column is
  overwritten in place, a new one is appended.\<close>

definition setitem :: "frame \<Rightarrow> string \<Rightarrow> cell list \<Rightarrow> frame" where
  "setitem df c vals =
     \<lparr>columns = (if c \<in> set (columns df) then columns df else columns df @ [c]),
      rows = map (\<lambda>(r, v). r(c := v)) (zip (rows df) vals)\<rparr>"

text \<open>\<^verbatim>\<open>df.loc[:, c] = None\<close>: the scalar is broadcast to every row.\<close>

definition setitem_scalar :: "frame \<Rightarrow> string \<Rightarrow> cell \<Rightarrow> frame" where
  "setitem_scalar df c v = setitem df c (replicate (length (rows df)) v)"

subsection \<open>Exceptions as values\<close>

definition bind :: "error + 'a \<Rightarrow> ('a \<Rightarrow> error + 'b) \<Rightarrow> error + 'b" where
  "bind x f = (case x of Inl e \<Rightarrow> Inl e | Inr v \<Rightarrow> f v)"

text \<open>A row-wise \<^verbatim>\<open>apply(..., axis=1)\<close>: the first row whose function raises ends it.\<close>

fun apply_rows :: "('a \<Rightarrow> error + 'b) \<Rightarrow> 'a list \<Rightarrow> error + 'b list" where
  "apply_rows f [] = Inr []"
| "apply_rows f (x # xs) =
     (case f x of
        Inl e \<Rightarrow> Inl e
      | Inr y \<Rightarrow> (case apply_rows f xs of Inl e \<Rightarrow> Inl e | Inr ys \<Rightarrow> Inr (y # ys)))"

text \<open>A \<^verbatim>\<open>for\<close> loop that updates a state and stops at the first exception.\<close>

fun for_each :: "('s \<Rightarrow> 'a \<Rightarrow> error + 's) \<Rightarrow> 's \<Rightarrow> 'a list \<Rightarrow> error + 's" where
  "for_each body s [] = Inr s"
| "for_each body s (x # xs) =
     (case body s x of Inl e \<Rightarrow> Inl e | Inr s' \<Rightarrow> for_each body s' xs)"

section \<open>Joining the PSM index onto a quantification batch\<close>

text \<open>
  \<^verbatim>\<open>map_dict\<close> maps the tuple (reference_file_name, peptidoform, precursor_charge) to a
  Python list; a tuple is the list of its components.
\<close>

type_synonym map_dict = "cell list \<rightharpoonup> cell list"

definition map_features :: "string list" where
  "map_features =
     [''posterior_error_probability'', ''calculated_mz'', ''observed_mz'',
      ''mp_accessions'', ''is_decoy'', ''additional_scores'', ''cv_params'']"

definition psm_key_columns :: "string list" where
  "psm_key_columns = [''reference_file_name'', ''peptidoform'', ''precursor_charge'']"

definition psm_key :: "row \<Rightarrow> cell list" where
  "psm_key rws = [rws ''reference_file_name'', rws ''peptidoform'', rws ''precursor_charge'']"

text \<open>
  Python looks a tuple up in a dictionary by hash and then by \<^verbatim>\<open>is\<close> or \<^verbatim>\<open>==\<close>. A row read
  from a frame carries a fresh float \<^verbatim>\<open>nan\<close>, which equals nothing, itself included: a key
  with a \<^verbatim>\<open>nan\<close> component is never found. \<^verbatim>\<open>None\<close>, \<^verbatim>\<open>pd.NA\<close>, numbers and strings are
  found by value.
\<close>

definition dict_get :: "(cell list \<rightharpoonup> 'v) \<Rightarrow> cell list \<Rightarrow> 'v option" where
  "dict_get d key = (if NaN \<in> set key then None else d key)"

definition merge_psm :: "map_dict \<Rightarrow> row \<Rightarrow> nat \<Rightarrow> error + cell" where
  "merge_psm map_dict rws index =
     (case dict_get map_dict (psm_key rws) of
        Some v \<Rightarrow> (if index < length v then Inr (v ! index) else Inl IndexError)
      | None \<Rightarrow> Inr PyNone)"

text \<open>
  The values a row-wise \<^verbatim>\<open>apply\<close> returns are collected into a new \<^verbatim>\<open>Series\<close>, whose
  constructor infers the dtype from the values: when a float or an integer is among them
  (\<^verbatim>\<open>nan\<close> is a float) and neither a string nor \<^verbatim>\<open>pd.NA\<close>, the series is \<^verbatim>\<open>float64\<close> and
  every \<^verbatim>\<open>None\<close> in it becomes \<^verbatim>\<open>nan\<close>; otherwise it is an \<^verbatim>\<open>object\<close> series and keeps
  its values, \<^verbatim>\<open>None\<close> included (so does a series of nothing but \<^verbatim>\<open>None\<close>).
\<close>

definition float_like :: "cell \<Rightarrow> bool" where
  "float_like c = (case c of Num r \<Rightarrow> True | NaN \<Rightarrow> True | _ \<Rightarrow> False)"

definition object_like :: "cell \<Rightarrow> bool" where
  "object_like c = (case c of Str s \<Rightarrow> True | NA \<Rightarrow> True | _ \<Rightarrow> False)"

definition float_inferred :: "cell list \<Rightarrow> bool" where
  "float_inferred vals = (list_ex float_like vals \<and> \<not> list_ex object_like vals)"

definition infer_cell :: "bool \<Rightarrow> cell \<Rightarrow> cell" where
  "infer_cell as_float c = (if as_float \<and> c = PyNone then NaN else c)"

definition infer_series :: "cell list \<Rightarrow> cell list" where
  "infer_series vals = map (infer_cell (float_inferred vals)) vals"

definition merge_feature :: "map_dict \<Rightarrow> frame \<Rightarrow> nat \<times> string \<Rightarrow> error + frame" where
  "merge_feature map_dict msstats p =
     (case p of (i, feature) \<Rightarrow>
        bind (select_columns msstats psm_key_columns) (\<lambda>_.
        bind (apply_rows (\<lambda>rws. merge_psm map_dict rws i) (rows msstats)) (\<lambda>vals.
        Inr (setitem msstats feature (infer_series vals)))))"

definition merge_msstats_and_psm :: "map_dict \<Rightarrow> frame \<Rightarrow> error + frame" where
  "merge_msstats_and_psm map_dict msstats =
     for_each (merge_feature map_dict) msstats (enumerate 0 map_features)"

section \<open>Annotating a batch\<close>

text \<open>
  What \<^verbatim>\<open>add_additional_msg\<close> and \<^verbatim>\<open>convert_to_parquet_format\<close> take from outside this
  file: the accession to q-value map built by \<^verbatim>\<open>MzTab.get_protein_map\<close>, the decoder
  \<^verbatim>\<open>generate_modifications_details\<close> with its modification map and automaton already
  supplied, \<^verbatim>\<open>get_protein_accession\<close>, the schema cast of \<^verbatim>\<open>transform_feature\<close>, and
  two functions of Python and pandas themselves: which strings parse as a number, and
  how a number prints. They are parameters: every theorem below holds for all of them.
\<close>

record feature_env =
  protein_global_qvalue_map :: "cell \<rightharpoonup> cell"
  generate_modifications_details :: "cell \<Rightarrow> error + cell \<times> cell"
  get_protein_accession :: "cell \<Rightarrow> error + cell"
  transform_feature :: "frame \<Rightarrow> error + frame"
  parse_number :: "string \<Rightarrow> real option"
  render_number :: "real \<Rightarrow> string"

type_synonym pep_dict = "cell list \<rightharpoonup> cell list"

definition generate_best_scan :: "row \<Rightarrow> pep_dict \<Rightarrow> error + cell list" where
  "generate_best_scan rws pep_dict =
     (let key = [rws ''peptidoform'', rws ''precursor_charge''] in
      case dict_get pep_dict key of
        Some v \<Rightarrow> (if 2 < length v then Inr [v ! 1, v ! 2] else Inl IndexError)
      | None \<Rightarrow> Inr [PyNone, PyNone])"

definition placeholder_columns :: "string list" where
  "placeholder_columns =
     [''additional_intensities'', ''predicted_rt'', ''gg_accessions'', ''gg_names'',
      ''rt_start'', ''rt_stop'', ''ion_mobility'', ''start_ion_mobility'',
      ''stop_ion_mobility'']"

text \<open>\<^verbatim>\<open>Series.map(dict)\<close>: a value that is no key of the dictionary maps to \<^verbatim>\<open>nan\<close>.
  The columns that \<^verbatim>\<open>apply\<close> builds (expanded or not) pass the dtype inference of
  \<open>infer_series\<close>, one column at a time.\<close>

definition series_map :: "(cell \<rightharpoonup> cell) \<Rightarrow> cell \<Rightarrow> cell" where
  "series_map d c = (case d c of Some v \<Rightarrow> v | None \<Rightarrow> NaN)"

definition add_additional_msg :: "feature_env \<Rightarrow> frame \<Rightarrow> pep_dict \<Rightarrow> error + frame" where
  "add_additional_msg env msstats pep_dict =
     bind (getitem msstats ''mp_accessions'') (\<lambda>accs.
     let m1 = setitem msstats ''pg_global_qvalue''
                (map (series_map (protein_global_qvalue_map env)) accs) in
     bind (select_columns m1 [''peptidoform'', ''precursor_charge'']) (\<lambda>_.
     bind (apply_rows (\<lambda>rws. generate_best_scan rws pep_dict) (rows m1)) (\<lambda>scans.
     let m2 = setitem (setitem m1 ''scan_reference_file_name''
                          (infer_series (map (\<lambda>v. v ! 0) scans)))
                ''scan'' (infer_series (map (\<lambda>v. v ! 1) scans)) in
     bind (select_columns m2 [''peptidoform'']) (\<lambda>_.
     bind (apply_rows (\<lambda>rw. generate_modifications_details env (rw ''peptidoform'')) (rows m2))
       (\<lambda>mods.
     let m3 = setitem (setitem m2 ''peptidoform'' (infer_series (map fst mods)))
                ''modifications'' (infer_series (map snd mods)) in
     bind (getitem m3 ''mp_accessions'') (\<lambda>accs3.
     bind (apply_rows (get_protein_accession env) accs3) (\<lambda>accs'.
     let m4 = setitem m3 ''mp_accessions'' (infer_series accs') in
     Inr (fold (\<lambda>c df. setitem_scalar df c PyNone) placeholder_columns m4))))))))"

section \<open>Coercing a batch to the parquet types\<close>

text \<open>\<^verbatim>\<open>pd.to_numeric(..., errors="coerce")\<close>, value by value: a number stays, a string
  that parses becomes its number, everything else becomes \<^verbatim>\<open>nan\<close>.\<close>

definition to_numeric :: "(string \<Rightarrow> real option) \<Rightarrow> cell \<Rightarrow> cell" where
  "to_numeric parse c =
     (case c of
        Num r \<Rightarrow> Num r
      | Str s \<Rightarrow> (case parse s of Some r \<Rightarrow> Num r | None \<Rightarrow> NaN)
      | _ \<Rightarrow> NaN)"

text \<open>
  \<^verbatim>\<open>.astype("Int32")\<close> on the result of \<^verbatim>\<open>to_numeric\<close>: pandas casts and compares; a value
  that is no 32-bit integer raises \<^verbatim>\<open>TypeError\<close> (cannot safely cast), a missing value
  becomes \<^verbatim>\<open>pd.NA\<close>.
\<close>

definition int32_castable :: "cell \<Rightarrow> bool" where
  "int32_castable c =
     (case c of
        Num r \<Rightarrow> r = of_int \<lfloor>r\<rfloor> \<and> - 2147483648 \<le> r \<and> r \<le> 2147483647
      | Str s \<Rightarrow> False
      | _ \<Rightarrow> True)"

definition to_Int32 :: "cell \<Rightarrow> cell" where
  "to_Int32 c = (case c of Num r \<Rightarrow> Num r | _ \<Rightarrow> NA)"

definition astype_Int32 :: "cell list \<Rightarrow> error + cell list" where
  "astype_Int32 cs = (if list_all int32_castable cs then Inr (map to_Int32 cs) else Inl TypeError)"

text \<open>\<^verbatim>\<open>.astype(str)\<close> applies Python's \<^verbatim>\<open>str\<close> to every value, the missing ones
  included.\<close>

definition astype_str :: "(real \<Rightarrow> string) \<Rightarrow> cell \<Rightarrow> cell" where
  "astype_str render c =
     (case c of
        PyNone \<Rightarrow> Str ''None''
      | NaN \<Rightarrow> Str ''nan''
      | NA \<Rightarrow> Str ''<NA>''
      | Num r \<Rightarrow> Str (render r)
      | Str s \<Rightarrow> Str s)"

definition float_columns :: "string list" where
  "float_columns =
     [''pg_global_qvalue'', ''calculated_mz'', ''observed_mz'', ''posterior_error_probability'']"

text \<open>\<^verbatim>\<open>res[col] = pd.to_numeric(res[col], errors="coerce")\<close>\<close>

definition coerce_float :: "(string \<Rightarrow> real option) \<Rightarrow> frame \<Rightarrow> string \<Rightarrow> error + frame" where
  "coerce_float parse res col =
     bind (getitem res col) (\<lambda>vals. Inr (setitem res col (map (to_numeric parse) vals)))"

text \<open>\<^verbatim>\<open>res[col] = pd.to_numeric(res[col], errors="coerce").astype("Int32")\<close>\<close>

definition coerce_Int32 :: "(string \<Rightarrow> real option) \<Rightarrow> frame \<Rightarrow> string \<Rightarrow> error + frame" where
  "coerce_Int32 parse res col =
     bind (getitem res col) (\<lambda>vals.
     bind (astype_Int32 (map (to_numeric parse) vals)) (\<lambda>ints.
     Inr (setitem res col ints)))"

text \<open>\<^verbatim>\<open>res[col] = res[col].astype(str)\<close>\<close>

definition coerce_str :: "(real \<Rightarrow> string) \<Rightarrow> frame \<Rightarrow> string \<Rightarrow> error + frame" where
  "coerce_str render res col =
     bind (getitem res col) (\<lambda>vals. Inr (setitem res col (map (astype_str render) vals)))"

definition convert_to_parquet_format ::
  "(string \<Rightarrow> real option) \<Rightarrow> (real \<Rightarrow> string) \<Rightarrow> frame \<Rightarrow> error + frame" where
  "convert_to_parquet_format parse render res =
     bind (for_each (\<lambda>df col. if col \<in> set (columns df) then coerce_float parse df col else Inr df)
             res float_columns) (\<lambda>res1.
     bind (coerce_Int32 parse res1 ''unique'') (\<lambda>res2.
     bind (if ''precursor_charge'' \<in> set (columns res2)
           then coerce_Int32 parse res2 ''precursor_charge'' else Inr res2) (\<lambda>res3.
     bind (if ''is_decoy'' \<in> set (columns res3)
           then coerce_Int32 parse res3 ''is_decoy'' else Inr res3) (\<lambda>res4.
     bind (coerce_str render res4 ''scan'') (\<lambda>res5.
     bind (coerce_str render res5 ''scan_reference_file_name'') (\<lambda>res6.
     if ''rt'' \<in> set (columns res6) then coerce_float parse res6 ''rt''
     else Inr (setitem_scalar res6 ''rt'' PyNone)))))))"

text \<open>The body of the loop of \<^verbatim>\<open>generate_feature_report\<close>: what happens to one batch
  before it is yielded.\<close>

definition feature_report_batch ::
  "feature_env \<Rightarrow> map_dict \<Rightarrow> pep_dict \<Rightarrow> frame \<Rightarrow> error + frame" where
  "feature_report_batch env map_dict pep_dict msstats =
     bind (merge_msstats_and_psm map_dict msstats) (\<lambda>m1.
     bind (add_additional_msg env m1 pep_dict) (\<lambda>m2.
     convert_to_parquet_format (parse_number env) (render_number env) m2))"
text \<open>Auxiliary to the proofs: what \<open>merge_psm\<close> returns on an index of 7-element lists.\<close>

definition psm_value :: "map_dict \<Rightarrow> row \<Rightarrow> nat \<Rightarrow> cell" where
  "psm_value m r i = (case dict_get m (psm_key r) of Some v \<Rightarrow> v ! i | None \<Rightarrow> PyNone)"

definition psm_column :: "map_dict \<Rightarrow> row list \<Rightarrow> nat \<Rightarrow> cell list" where
  "psm_column m rs i = map (\<lambda>r. psm_value m r i) rs"

definition map_column :: "string \<Rightarrow> (cell \<Rightarrow> cell) \<Rightarrow> frame \<Rightarrow> frame" where
  "map_column c g df = \<lparr>columns = columns df, rows = map (\<lambda>r. r(c := g (r c))) (rows df)\<rparr>"





definition quant_row :: "string \<Rightarrow> string \<Rightarrow> real \<Rightarrow> row" where
  "quant_row f p z =
     (\<lambda>_. PyNone)(''reference_file_name'' := Str f, ''peptidoform'' := Str p,
        ''precursor_charge'' := Num z, ''intensity'' := Num 1000, ''unique'' := Num 1)"

definition quant_columns :: "string list" where
  "quant_columns =
     [''reference_file_name'', ''peptidoform'', ''precursor_charge'', ''intensity'', ''unique'']"

definition quant_batch :: frame where
  "quant_batch =
     \<lparr>columns = quant_columns,
      rows = [quant_row ''fileA'' ''PEP(ox)TIDE'' 2, quant_row ''fileB'' ''PEPTIDE'' 3,
              quant_row ''fileA'' ''PEP(ox)TIDE'' 2]\<rparr>"

definition psm_index :: map_dict where
  "psm_index =
     [[Str ''fileA'', Str ''PEP(ox)TIDE'', Num 2] \<mapsto>
        [Num (1/100), Num 500, Num 501, Str ''P12345'', Num 0, Str ''scores'', Str ''cv'']]"






lemma apply_rows_Inr:
  "apply_rows f xs = Inr ys \<Longrightarrow> length ys = length xs \<and> (\<forall>i<length xs. f (xs ! i) = Inr (ys ! i))"
proof (induction xs arbitrary: ys)
  case Nil then show ?case by simp
next
  case (Cons x xs)
  then show ?case
    by (auto split: sum.splits simp: nth_Cons split: nat.splits)
qed

lemma apply_rows_total:
  "(\<And>x. x \<in> set xs \<Longrightarrow> f x = Inr (g x)) \<Longrightarrow> apply_rows f xs = Inr (map g xs)"
  by (induction xs) auto

lemma merge_psm_wf:
  "(\<And>v. v \<in> ran m \<Longrightarrow> length v = 7) \<Longrightarrow> i < 7 \<Longrightarrow> merge_psm m r i = Inr (psm_value m r i)"
proof (cases "dict_get m (psm_key r)")
  case None
  then show ?thesis by (simp add: merge_psm_def psm_value_def)
next
  case (Some v)
  assume len: "\<And>v. v \<in> ran m \<Longrightarrow> length v = 7" and i: "i < 7"
  from Some have "m (psm_key r) = Some v" by (simp add: dict_get_def split: if_splits)
  then have "v \<in> ran m" by (auto simp: ran_def)
  with len have "length v = 7" by blast
  with Some i show ?thesis by (simp add: merge_psm_def psm_value_def)
qed

lemma select_columns_ok: "set cs \<subseteq> set (columns df) \<Longrightarrow> select_columns df cs = Inr ()"
  by (induction cs) auto

lemma setitem_map_rows:
  "setitem df c (map g (rows df)) = \<lparr>columns = (if c \<in> set (columns df) then columns df else columns df @ [c]),
      rows = map (\<lambda>r. r(c := g r)) (rows df)\<rparr>"
  by (simp add: setitem_def zip_map2 zip_same_conv_map)

lemma infer_series_map:
  "infer_series (map g rs) = map (\<lambda>r. infer_cell (float_inferred (map g rs)) (g r)) rs"
  by (simp add: infer_series_def)

lemma merge_feature_wf:
  assumes "\<And>v. v \<in> ran m \<Longrightarrow> length v = 7" "i < 7" "set psm_key_columns \<subseteq> set (columns df)"
  shows "merge_feature m df (i, f) =
     Inr (setitem df f (map (\<lambda>r. infer_cell (float_inferred (psm_column m (rows df) i))
                                  (psm_value m r i)) (rows df)))"
  using assms
  by (simp add: merge_feature_def bind_def select_columns_ok psm_column_def infer_series_map
      apply_rows_total[where g="\<lambda>r. psm_value m r i"] merge_psm_wf)

lemma psm_column_update:
  assumes "f \<notin> set psm_key_columns"
  shows "psm_column m (map (\<lambda>r. r(f := h r)) rs) k = psm_column m rs k"
proof -
  have "\<And>r v. psm_key (r(f := v)) = psm_key r"
    using assms by (auto simp: psm_key_def psm_key_columns_def)
  then show ?thesis by (simp add: psm_column_def psm_value_def o_def)
qed

lemma merge_loop:
  assumes wf: "\<And>v. v \<in> ran m \<Longrightarrow> length v = 7"
  shows "n + length fs \<le> 7 \<Longrightarrow> distinct fs \<Longrightarrow> set fs \<inter> set psm_key_columns = {} \<Longrightarrow>
     set psm_key_columns \<subseteq> set (columns df) \<Longrightarrow>
     \<exists>out. for_each (merge_feature m) df (enumerate n fs) = Inr out
        \<and> length (rows out) = length (rows df)
        \<and> set (columns out) = set (columns df) \<union> set fs
        \<and> (\<forall>i<length (rows df).
              (\<forall>c. c \<notin> set fs \<longrightarrow> (rows out ! i) c = (rows df ! i) c)
            \<and> (\<forall>j<length fs. (rows out ! i) (fs ! j) =
                  infer_cell (float_inferred (psm_column m (rows df) (n + j)))
                    (psm_value m (rows df ! i) (n + j))))"
proof (induction fs arbitrary: n df)
  case Nil
  then show ?case by simp
next
  case (Cons f fs)
  let ?g = "\<lambda>r. infer_cell (float_inferred (psm_column m (rows df) n)) (psm_value m r n)"
  let ?df = "setitem df f (map ?g (rows df))"
  have step: "merge_feature m df (n, f) = Inr ?df"
    using Cons.prems wf by (intro merge_feature_wf) auto
  have rows': "rows ?df = map (\<lambda>r. r(f := ?g r)) (rows df)"
    by (simp add: setitem_map_rows)
  have cols': "set (columns ?df) = insert f (set (columns df))"
    by (auto simp: setitem_map_rows)
  have fkey: "f \<notin> set psm_key_columns" using Cons.prems by auto
  have key': "\<And>r v. psm_key (r(f := v)) = psm_key r"
    using fkey by (auto simp: psm_key_def psm_key_columns_def)
  have pv': "\<And>r v k. psm_value m (r(f := v)) k = psm_value m r k"
    unfolding psm_value_def key' ..
  have pc: "\<And>k. psm_column m (rows ?df) k = psm_column m (rows df) k"
    by (simp only: rows' psm_column_update[OF fkey])
  have "\<exists>out. for_each (merge_feature m) ?df (enumerate (Suc n) fs) = Inr out
        \<and> length (rows out) = length (rows ?df)
        \<and> set (columns out) = set (columns ?df) \<union> set fs
        \<and> (\<forall>i<length (rows ?df).
              (\<forall>c. c \<notin> set fs \<longrightarrow> (rows out ! i) c = (rows ?df ! i) c)
            \<and> (\<forall>j<length fs. (rows out ! i) (fs ! j) =
                  infer_cell (float_inferred (psm_column m (rows ?df) (Suc n + j)))
                    (psm_value m (rows ?df ! i) (Suc n + j))))"
    using Cons.prems cols' by (intro Cons.IH) auto
  then obtain out where out: "for_each (merge_feature m) ?df (enumerate (Suc n) fs) = Inr out"
     "length (rows out) = length (rows ?df)" "set (columns out) = set (columns ?df) \<union> set fs"
     "\<And>i c. i < length (rows ?df) \<Longrightarrow> c \<notin> set fs \<Longrightarrow> (rows out ! i) c = (rows ?df ! i) c"
     "\<And>i j. i < length (rows ?df) \<Longrightarrow> j < length fs \<Longrightarrow> (rows out ! i) (fs ! j) =
         infer_cell (float_inferred (psm_column m (rows ?df) (Suc n + j)))
           (psm_value m (rows ?df ! i) (Suc n + j))"
    by blast
  have pv: "\<And>i k. i < length (rows df) \<Longrightarrow> psm_value m (rows ?df ! i) k = psm_value m (rows df ! i) k"
  proof -
    fix i k assume "i < length (rows df)"
    then have "rows ?df ! i = (rows df ! i)(f := ?g (rows df ! i))"
      using rows' by simp
    then show "psm_value m (rows ?df ! i) k = psm_value m (rows df ! i) k"
      by (simp only: pv')
  qed
  have fnot: "f \<notin> set fs" using Cons.prems by simp
  have "for_each (merge_feature m) df (enumerate n (f # fs)) = Inr out"
    using step out(1) by simp
  moreover have "length (rows out) = length (rows df)" using out(2) rows' by simp
  moreover have "set (columns out) = set (columns df) \<union> set (f # fs)"
    using out(3) cols' by auto
  moreover have "\<forall>i<length (rows df).
              (\<forall>c. c \<notin> set (f # fs) \<longrightarrow> (rows out ! i) c = (rows df ! i) c)
            \<and> (\<forall>j<length (f # fs). (rows out ! i) ((f # fs) ! j) =
                  infer_cell (float_inferred (psm_column m (rows df) (n + j)))
                    (psm_value m (rows df ! i) (n + j)))"
  proof (intro allI impI conjI)
    fix i c assume i: "i < length (rows df)" and c: "c \<notin> set (f # fs)"
    then show "(rows out ! i) c = (rows df ! i) c"
      using out(4)[of i c] rows' by simp
  next
    fix i j assume i: "i < length (rows df)" and j: "j < length (f # fs)"
    show "(rows out ! i) ((f # fs) ! j) =
            infer_cell (float_inferred (psm_column m (rows df) (n + j)))
              (psm_value m (rows df ! i) (n + j))"
    proof (cases j)
      case 0
      then show ?thesis using out(4)[of i f] fnot i rows' by simp
    next
      case (Suc j')
      then show ?thesis
        using out(5)[of i j'] i j pv[of i] rows' by (simp add: psm_column_update[OF fkey])
    qed
  qed
  ultimately show ?case by blast
qed

lemma infer_cell_cases: "infer_cell b c = c \<or> (c = PyNone \<and> infer_cell b c = NaN)"
  by (simp add: infer_cell_def)

lemma infer_cell_null: "is_null c \<Longrightarrow> is_null (infer_cell b c)"
  by (auto simp: infer_cell_def is_null_def)

lemma merge_cells:
  assumes cols: "set psm_key_columns \<subseteq> set (columns msstats)"
      and wf: "\<And>v. v \<in> ran map_dict \<Longrightarrow> length v = 7"
  shows "\<exists>out. merge_msstats_and_psm map_dict msstats = Inr out
           \<and> length (rows out) = length (rows msstats)
           \<and> set (columns out) = set (columns msstats) \<union> set map_features
           \<and> (\<forall>i<length (rows msstats).
                 (\<forall>c. c \<notin> set map_features \<longrightarrow> (rows out ! i) c = (rows msstats ! i) c)
               \<and> (\<forall>j<7. (rows out ! i) (map_features ! j) =
                     infer_cell (float_inferred (psm_column map_dict (rows msstats) j))
                       (psm_value map_dict (rows msstats ! i) j)))"
proof -
  have len: "length map_features = 7" by (simp add: map_features_def)
  have "\<exists>out. for_each (merge_feature map_dict) msstats (enumerate 0 map_features) = Inr out
        \<and> length (rows out) = length (rows msstats)
        \<and> set (columns out) = set (columns msstats) \<union> set map_features
        \<and> (\<forall>i<length (rows msstats).
              (\<forall>c. c \<notin> set map_features \<longrightarrow> (rows out ! i) c = (rows msstats ! i) c)
            \<and> (\<forall>j<length map_features. (rows out ! i) (map_features ! j) =
                  infer_cell (float_inferred (psm_column map_dict (rows msstats) (0 + j)))
                    (psm_value map_dict (rows msstats ! i) (0 + j))))"
    using cols by (intro merge_loop[OF wf]) (auto simp: map_features_def psm_key_columns_def)
  then show ?thesis
    unfolding merge_msstats_and_psm_def len by (simp only: add_0)
qed

text \<open>
  Claim C2. \<^verbatim>\<open>merge_msstats_and_psm\<close> is a pure lookup join. On every batch that has the
  three key columns, and every index whose values are 7-element lists, it returns a batch
  with the same number of rows, in which every column other than the seven PSM fields is
  unchanged. A row whose key is not found in the index has a null in each of the seven
  fields (\<^verbatim>\<open>None\<close>, or \<^verbatim>\<open>nan\<close> where the column was inferred as float). A row whose key is
  found has the stored list in the seven fields, value by value, except that a stored
  \<^verbatim>\<open>None\<close> may read \<^verbatim>\<open>nan\<close>. Rows that share a key have the same seven values.
\<close>

theorem merge_msstats_and_psm_lookup_join:
  assumes cols: "set psm_key_columns \<subseteq> set (columns msstats)"
      and wf: "\<forall>v\<in>ran map_dict. length v = 7"
  shows "\<exists>out. merge_msstats_and_psm map_dict msstats = Inr out
           \<and> length (rows out) = length (rows msstats)
           \<and> set (columns out) = set (columns msstats) \<union> set map_features
           \<and> (\<forall>i<length (rows msstats).
                 (\<forall>c. c \<notin> set map_features \<longrightarrow> (rows out ! i) c = (rows msstats ! i) c)
               \<and> (case dict_get map_dict (psm_key (rows msstats ! i)) of
                    None \<Rightarrow> \<forall>j<7. is_null ((rows out ! i) (map_features ! j))
                  | Some v \<Rightarrow> \<forall>j<7. (rows out ! i) (map_features ! j) = v ! j
                       \<or> (v ! j = PyNone \<and> (rows out ! i) (map_features ! j) = NaN))
               \<and> (\<forall>i'<length (rows msstats).
                     psm_key (rows msstats ! i') = psm_key (rows msstats ! i) \<longrightarrow>
                     (\<forall>j<7. (rows out ! i') (map_features ! j) = (rows out ! i) (map_features ! j))))"
proof -
  have wf': "\<And>v. v \<in> ran map_dict \<Longrightarrow> length v = 7" using wf by blast
  from merge_cells[OF cols wf'] obtain out where
    all: "merge_msstats_and_psm map_dict msstats = Inr out
           \<and> length (rows out) = length (rows msstats)
           \<and> set (columns out) = set (columns msstats) \<union> set map_features
           \<and> (\<forall>i<length (rows msstats).
                 (\<forall>c. c \<notin> set map_features \<longrightarrow> (rows out ! i) c = (rows msstats ! i) c)
               \<and> (\<forall>j<7. (rows out ! i) (map_features ! j) =
                     infer_cell (float_inferred (psm_column map_dict (rows msstats) j))
                       (psm_value map_dict (rows msstats ! i) j)))" ..
  note out = conjunct1[OF all] conjunct1[OF conjunct2[OF all]]
    conjunct1[OF conjunct2[OF conjunct2[OF all]]]
  note rest = conjunct2[OF conjunct2[OF conjunct2[OF all]], rule_format]
  have same: "\<And>i c. i < length (rows msstats) \<Longrightarrow> c \<notin> set map_features \<Longrightarrow>
        (rows out ! i) c = (rows msstats ! i) c"
    using conjunct1[OF rest] by blast
  have cell: "\<And>i j. i < length (rows msstats) \<Longrightarrow> j < 7 \<Longrightarrow>
        (rows out ! i) (map_features ! j) =
          infer_cell (float_inferred (psm_column map_dict (rows msstats) j))
            (psm_value map_dict (rows msstats ! i) j)"
    using conjunct2[OF rest] by blast
  have "\<forall>i<length (rows msstats).
          (\<forall>c. c \<notin> set map_features \<longrightarrow> (rows out ! i) c = (rows msstats ! i) c)
        \<and> (case dict_get map_dict (psm_key (rows msstats ! i)) of
              None \<Rightarrow> \<forall>j<7. is_null ((rows out ! i) (map_features ! j))
            | Some v \<Rightarrow> \<forall>j<7. (rows out ! i) (map_features ! j) = v ! j
                 \<or> (v ! j = PyNone \<and> (rows out ! i) (map_features ! j) = NaN))
        \<and> (\<forall>i'<length (rows msstats).
              psm_key (rows msstats ! i') = psm_key (rows msstats ! i) \<longrightarrow>
              (\<forall>j<7. (rows out ! i') (map_features ! j) = (rows out ! i) (map_features ! j)))"
  proof (intro allI impI conjI)
    fix i c assume "i < length (rows msstats)" "c \<notin> set map_features"
    then show "(rows out ! i) c = (rows msstats ! i) c" by (rule same)
  next
    fix i assume i: "i < length (rows msstats)"
    show "case dict_get map_dict (psm_key (rows msstats ! i)) of
              None \<Rightarrow> \<forall>j<7. is_null ((rows out ! i) (map_features ! j))
            | Some v \<Rightarrow> \<forall>j<7. (rows out ! i) (map_features ! j) = v ! j
                 \<or> (v ! j = PyNone \<and> (rows out ! i) (map_features ! j) = NaN)"
    proof (cases "dict_get map_dict (psm_key (rows msstats ! i))")
      case None
      then have pn: "\<And>j. psm_value map_dict (rows msstats ! i) j = PyNone"
        by (simp add: psm_value_def)
      have nn: "\<And>b. is_null (infer_cell b PyNone)"
        by (simp add: infer_cell_def is_null_def)
      have "\<forall>j<7. is_null ((rows out ! i) (map_features ! j))"
      proof (intro allI impI)
        fix j :: nat assume "j < 7"
        from cell[OF i this] show "is_null ((rows out ! i) (map_features ! j))"
          by (simp only: pn nn)
      qed
      with None show ?thesis by simp
    next
      case (Some v)
      then have pv: "\<And>j. psm_value map_dict (rows msstats ! i) j = v ! j"
        by (simp add: psm_value_def)
      have "\<forall>j<7. (rows out ! i) (map_features ! j) = v ! j
                 \<or> (v ! j = PyNone \<and> (rows out ! i) (map_features ! j) = NaN)"
      proof (intro allI impI)
        fix j :: nat assume "j < 7"
        from cell[OF i this] infer_cell_cases[of _ "v ! j"]
        show "(rows out ! i) (map_features ! j) = v ! j
                 \<or> (v ! j = PyNone \<and> (rows out ! i) (map_features ! j) = NaN)"
          by (simp only: pv)
      qed
      with Some show ?thesis by simp
    qed
  next
    fix i i' :: nat and j :: nat
    assume i: "i < length (rows msstats)" and i': "i' < length (rows msstats)"
      and k: "psm_key (rows msstats ! i') = psm_key (rows msstats ! i)" and j: "j < 7"
    from k have "psm_value map_dict (rows msstats ! i') j = psm_value map_dict (rows msstats ! i) j"
      by (simp add: psm_value_def)
    then show "(rows out ! i') (map_features ! j) = (rows out ! i) (map_features ! j)"
      using cell[OF i j] cell[OF i' j] by (simp only:)
  qed
  with out show ?thesis by (intro exI[of _ out] conjI)
qed

theorem merge_msstats_and_psm_lookup_join_witness:
  "set psm_key_columns \<subseteq> set (columns quant_batch)
   \<and> ran psm_index = {[Num (1/100), Num 500, Num 501, Str ''P12345'', Num 0, Str ''scores'', Str ''cv'']}
   \<and> (\<exists>out. merge_msstats_and_psm psm_index quant_batch = Inr out
         \<and> length (rows out) = 3
         \<and> (rows out ! 0) ''posterior_error_probability'' = Num (1/100)
         \<and> (rows out ! 0) ''mp_accessions'' = Str ''P12345''
         \<and> is_null ((rows out ! 1) ''posterior_error_probability'')
         \<and> is_null ((rows out ! 1) ''cv_params'')
         \<and> (rows out ! 2) ''calculated_mz'' = (rows out ! 0) ''calculated_mz''
         \<and> (rows out ! 1) ''intensity'' = Num 1000)"
proof -
  let ?v = "[Num (1/100), Num 500, Num 501, Str ''P12345'', Num 0, Str ''scores'', Str ''cv'']"
  have cols: "set psm_key_columns \<subseteq> set (columns quant_batch)"
    by (simp add: psm_key_columns_def quant_batch_def quant_columns_def)
  have ran: "ran psm_index = {?v}"
    by (simp add: psm_index_def)
  have wf: "\<forall>v\<in>ran psm_index. length v = 7" unfolding ran by simp
  have n: "length (rows quant_batch) = 3" by (simp add: quant_batch_def)
  have k0: "dict_get psm_index (psm_key (rows quant_batch ! 0)) = Some ?v"
    by (simp add: dict_get_def psm_index_def psm_key_def quant_batch_def quant_row_def)
  have k1: "dict_get psm_index (psm_key (rows quant_batch ! 1)) = None"
    by (simp add: dict_get_def psm_index_def psm_key_def quant_batch_def quant_row_def)
  have k20: "psm_key (rows quant_batch ! 2) = psm_key (rows quant_batch ! 0)"
    by (simp add: psm_key_def quant_batch_def quant_row_def)
  have i1: "(rows quant_batch ! 1) ''intensity'' = Num 1000"
    by (simp add: quant_batch_def quant_row_def)
  have nf: "''intensity'' \<notin> set map_features" by (simp add: map_features_def)
  have f0: "map_features ! 0 = ''posterior_error_probability''"
    and f1: "map_features ! 1 = ''calculated_mz''"
    and f3: "map_features ! 3 = ''mp_accessions''"
    and f6: "map_features ! 6 = ''cv_params''"
    by (simp_all add: map_features_def)
  have lt: "(0::nat) < 3" "(1::nat) < 3" "(2::nat) < 3" by simp_all
  have lt7: "(0::nat) < 7" "(1::nat) < 7" "(3::nat) < 7" "(6::nat) < 7" by simp_all
  from merge_msstats_and_psm_lookup_join[OF cols wf] obtain out where
    all: "merge_msstats_and_psm psm_index quant_batch = Inr out
           \<and> length (rows out) = length (rows quant_batch)
           \<and> set (columns out) = set (columns quant_batch) \<union> set map_features
           \<and> (\<forall>i<length (rows quant_batch).
                 (\<forall>c. c \<notin> set map_features \<longrightarrow> (rows out ! i) c = (rows quant_batch ! i) c)
               \<and> (case dict_get psm_index (psm_key (rows quant_batch ! i)) of
                    None \<Rightarrow> \<forall>j<7. is_null ((rows out ! i) (map_features ! j))
                  | Some v \<Rightarrow> \<forall>j<7. (rows out ! i) (map_features ! j) = v ! j
                       \<or> (v ! j = PyNone \<and> (rows out ! i) (map_features ! j) = NaN))
               \<and> (\<forall>i'<length (rows quant_batch).
                     psm_key (rows quant_batch ! i') = psm_key (rows quant_batch ! i) \<longrightarrow>
                     (\<forall>j<7. (rows out ! i') (map_features ! j) = (rows out ! i) (map_features ! j))))" ..
  note run = conjunct1[OF all]
  note len = conjunct1[OF conjunct2[OF all], unfolded n]
  note h = conjunct2[OF conjunct2[OF conjunct2[OF all]], unfolded n, rule_format]
  note h0 = h[OF lt(1)] and h1 = h[OF lt(2)]
  have hit: "\<forall>j<7. (rows out ! 0) (map_features ! j) = ?v ! j
        \<or> (?v ! j = PyNone \<and> (rows out ! 0) (map_features ! j) = NaN)"
    using conjunct1[OF conjunct2[OF h0]] unfolding k0 by simp
  have miss: "\<forall>j<7. is_null ((rows out ! 1) (map_features ! j))"
    using conjunct1[OF conjunct2[OF h1]] unfolding k1 by simp
  have share: "\<forall>j<7. (rows out ! 2) (map_features ! j) = (rows out ! 0) (map_features ! j)"
    using conjunct2[OF conjunct2[OF h0], rule_format, OF lt(3) k20] by blast
  have a0: "(rows out ! 0) ''posterior_error_probability'' = Num (1/100)"
    using hit[rule_format, OF lt7(1)] unfolding f0 by simp
  have a3: "(rows out ! 0) ''mp_accessions'' = Str ''P12345''"
    using hit[rule_format, OF lt7(3)] unfolding f3 by simp
  have b0: "is_null ((rows out ! 1) ''posterior_error_probability'')"
    using miss[rule_format, OF lt7(1)] unfolding f0 .
  have b6: "is_null ((rows out ! 1) ''cv_params'')"
    using miss[rule_format, OF lt7(4)] unfolding f6 .
  have c1: "(rows out ! 2) ''calculated_mz'' = (rows out ! 0) ''calculated_mz''"
    using share[rule_format, OF lt7(2)] unfolding f1 .
  have d: "(rows out ! 1) ''intensity'' = Num 1000"
    using conjunct1[OF h1, rule_format, OF nf] i1 by (simp only:)
  have body: "merge_msstats_and_psm psm_index quant_batch = Inr out
         \<and> length (rows out) = 3
         \<and> (rows out ! 0) ''posterior_error_probability'' = Num (1/100)
         \<and> (rows out ! 0) ''mp_accessions'' = Str ''P12345''
         \<and> is_null ((rows out ! 1) ''posterior_error_probability'')
         \<and> is_null ((rows out ! 1) ''cv_params'')
         \<and> (rows out ! 2) ''calculated_mz'' = (rows out ! 0) ''calculated_mz''
         \<and> (rows out ! 1) ''intensity'' = Num 1000"
    by (intro conjI run len a0 a3 b0 b6 c1 d)
  show ?thesis
    by (rule conjI[OF cols], rule conjI[OF ran], rule exI[of _ out], rule body)
qed
lemma map_column_simps [simp]:
  "columns (map_column c g df) = columns df"
  "rows (map_column c g df) = map (\<lambda>r. r(c := g (r c))) (rows df)"
  by (simp_all add: map_column_def)

lemma setitem_rowwise:
  "setitem df c (map h (rows df)) =
     \<lparr>columns = (if c \<in> set (columns df) then columns df else columns df @ [c]),
      rows = map (\<lambda>r. r(c := h r)) (rows df)\<rparr>"
  by (simp add: setitem_def zip_map2 zip_same_conv_map)

lemma setitem_column:
  "c \<in> set (columns df) \<Longrightarrow> setitem df c (map g (map (\<lambda>r. r c) (rows df))) = map_column c g df"
  by (simp add: setitem_rowwise map_column_def o_def)
































end
